theory Spec2Isabelle
  imports Complex_Main
begin

section \<open>Values, errors and operations\<close>

text \<open>
  The calculator of \<^verbatim>\<open>app/main.py\<close>. Operands are Python objects: the operations accept
  an \<^verbatim>\<open>int\<close> or a \<^verbatim>\<open>float\<close> and reject everything else. A number is modelled as a
  real: the rounding, the infinities and the NaN of the host's floats are not modelled,
  and no statement below is about the value that the host's arithmetic gives to
  arbitrary operands; the runs that are evaluated use numbers on which it is exact.
  \<open>Str\<close> stands for an operand that is not a number, as a cell of a foreign history file
  can be.
\<close>

datatype pyval = Number real | Str string

text \<open>
  The exceptions that the modelled code raises:
  \<^item> \<open>InvalidInput\<close>: \<^verbatim>\<open>ValueError("Both inputs must be numbers.")\<close>;
  \<^item> \<open>DivisionByZero\<close>: \<^verbatim>\<open>ValueError("Division by zero is not allowed.")\<close>;
  \<^item> \<open>NoneTypeAttributeError\<close>: the \<^verbatim>\<open>AttributeError\<close> of calling a method on \<^verbatim>\<open>None\<close>;
  \<^item> \<open>EmptyDataError\<close>: raised by \<^verbatim>\<open>pandas.read_csv\<close> on a file without columns
    (a subclass of \<^verbatim>\<open>ValueError\<close>);
  \<^item> \<open>Raised name\<close>: an exception of another class, not a \<^verbatim>\<open>ValueError\<close>, as the
    \<^verbatim>\<open>update\<close> method of a subscribed observer may raise.
\<close>

datatype error =
  InvalidInput | DivisionByZero | NoneTypeAttributeError | EmptyDataError | Raised string

fun is_ValueError :: "error \<Rightarrow> bool" where
  "is_ValueError InvalidInput = True"
| "is_ValueError DivisionByZero = True"
| "is_ValueError NoneTypeAttributeError = False"
| "is_ValueError EmptyDataError = True"
| "is_ValueError (Raised name) = False"

datatype operation = Addition | Subtraction | Multiplication | Division

text \<open>\<^verbatim>\<open>TemplateOperation.validate_inputs\<close>: both operands must be numbers.\<close>

fun validate_inputs :: "pyval \<Rightarrow> pyval \<Rightarrow> error + unit" where
  "validate_inputs (Number a) (Number b) = Inr ()"
| "validate_inputs a b = Inl InvalidInput"

text \<open>The \<^verbatim>\<open>execute\<close> method of the four subclasses.\<close>

fun execute :: "operation \<Rightarrow> real \<Rightarrow> real \<Rightarrow> error + real" where
  "execute Addition a b = Inr (a + b)"
| "execute Subtraction a b = Inr (a - b)"
| "execute Multiplication a b = Inr (a * b)"
| "execute Division a b = (if b = 0 then Inl DivisionByZero else Inr (a / b))"

text \<open>
  \<^verbatim>\<open>TemplateOperation.calculate\<close>: validate, execute, log the result (the log is not
  modelled), return it. After the validation both operands are numbers.
\<close>

definition calculate :: "operation \<Rightarrow> pyval \<Rightarrow> pyval \<Rightarrow> error + real" where
  "calculate opn a b =
     (case validate_inputs a b of
        Inl e \<Rightarrow> Inl e
      | Inr u \<Rightarrow>
          (case (a, b) of
             (Number x, Number y) \<Rightarrow> execute opn x y
           | _ \<Rightarrow> Inl InvalidInput))"

subsection \<open>The operation factory\<close>

text \<open>
  \<^verbatim>\<open>str.lower\<close>, on the ASCII letters (a \<open>char\<close> is a byte; the other bytes are kept).
\<close>

definition lower_char :: "char \<Rightarrow> char" where
  "lower_char c =
     (let n = (of_char c :: nat) in if 65 \<le> n \<and> n \<le> 90 then char_of (n + 32) else c)"

definition lower :: "string \<Rightarrow> string" where
  "lower s = map lower_char s"

definition operations_map :: "(string \<times> operation) list" where
  "operations_map =
     [(''add'', Addition), (''subtract'', Subtraction),
      (''multiply'', Multiplication), (''divide'', Division)]"

text \<open>
  \<^verbatim>\<open>OperationFactory.create_operation\<close>: \<^verbatim>\<open>operations_map.get(operation.lower())\<close>,
  which is \<^verbatim>\<open>None\<close> for a name that is not a key.
\<close>

definition create_operation :: "string \<Rightarrow> operation option" where
  "create_operation name = map_of operations_map (lower name)"

section \<open>Calculation records\<close>

record calculation =
  operation :: "operation option"
  operand1 :: pyval
  operand2 :: pyval

text \<open>\<^verbatim>\<open>x.__class__.__name__\<close> of an operation reference, which may be \<^verbatim>\<open>None\<close>.\<close>

fun class_name :: "operation option \<Rightarrow> string" where
  "class_name None = ''NoneType''"
| "class_name (Some Addition) = ''Addition''"
| "class_name (Some Subtraction) = ''Subtraction''"
| "class_name (Some Multiplication) = ''Multiplication''"
| "class_name (Some Division) = ''Division''"

text \<open>
  \<^verbatim>\<open>ref.calculate(a, b)\<close> on an operation reference: the attribute lookup on \<^verbatim>\<open>None\<close>
  raises before anything is computed.
\<close>

fun call_calculate :: "operation option \<Rightarrow> pyval \<Rightarrow> pyval \<Rightarrow> error + real" where
  "call_calculate None a b = Inl NoneTypeAttributeError"
| "call_calculate (Some opn) a b = calculate opn a b"

text \<open>
  \<^verbatim>\<open>Calculation.__str__\<close> recomputes the result and formats
  \<^verbatim>\<open>"{operand1} {class name, lowered} {operand2} = {result}"\<close>. The formatted string is
  modelled by its four parts.
\<close>

datatype formatted = Formatted pyval string pyval real

definition str_calculation :: "calculation \<Rightarrow> error + formatted" where
  "str_calculation c =
     (case call_calculate (operation c) (operand1 c) (operand2 c) of
        Inl e \<Rightarrow> Inl e
      | Inr result \<Rightarrow>
          Inr (Formatted (operand1 c) (lower (class_name (operation c))) (operand2 c) result))"

section \<open>The durable history file\<close>

text \<open>
  One row of the history file, with the columns that \<^verbatim>\<open>save_history\<close> writes.
\<close>

record row =
  Operation :: string
  Operand1 :: pyval
  Operand2 :: pyval
  Result :: pyval

text \<open>
  The file is written by \<^verbatim>\<open>DataFrame.to_csv(index=False)\<close> and read by
  \<^verbatim>\<open>pandas.read_csv\<close>. Its content is modelled as the table it holds, a cell being the
  value that the library reads back from it: \<open>Table rows\<close> is the header line
  \<^verbatim>\<open>Operation,Operand1,Operand2,Result\<close> followed by the rows. A frame built from an
  empty list of records has no columns; its file is a single empty line, \<open>Blank\<close>,
  on which \<^verbatim>\<open>read_csv\<close> raises.
\<close>

datatype csv_file = Blank | Table "row list"

definition to_csv :: "row list \<Rightarrow> csv_file" where
  "to_csv rows = (if rows = [] then Blank else Table rows)"

fun read_csv :: "csv_file \<Rightarrow> error + row list" where
  "read_csv Blank = Inl EmptyDataError"
| "read_csv (Table rows) = Inr rows"

section \<open>The calculator\<close>

text \<open>
  \<^verbatim>\<open>add_observer\<close> takes any object, and \<^verbatim>\<open>notify_observers\<close> calls its \<^verbatim>\<open>update\<close>
  method. An observer is its identity and what its \<^verbatim>\<open>update\<close> does with a calculation:
  return, or raise.
\<close>

datatype observer = Observer nat "calculation \<Rightarrow> error + unit"

fun obs_id :: "observer \<Rightarrow> nat" where
  "obs_id (Observer n f) = n"

fun update :: "observer \<Rightarrow> calculation \<Rightarrow> error + unit" where
  "update (Observer n f) c = f c"

text \<open>
  \<^verbatim>\<open>HistoryObserver.update\<close> formats the calculation into its log message, which
  recomputes the result.
\<close>

definition HistoryObserver_update :: "calculation \<Rightarrow> error + unit" where
  "HistoryObserver_update c =
     (case str_calculation c of Inl e \<Rightarrow> Inl e | Inr msg \<Rightarrow> Inr ())"

definition HistoryObserver :: "nat \<Rightarrow> observer" where
  "HistoryObserver n = Observer n HistoryObserver_update"

text \<open>
  The fields of \<^verbatim>\<open>CalculatorWithObserver\<close> (\<open>history\<close> is \<^verbatim>\<open>_history\<close>, \<open>observers\<close>
  is \<^verbatim>\<open>_observers\<close>), the files of the host by path, and \<open>updates\<close>, the calls of
  \<^verbatim>\<open>update\<close> made so far, each recorded when the call is entered.
\<close>

record state =
  history_file :: string
  history :: "calculation list"
  observers :: "observer list"
  files :: "string \<rightharpoonup> csv_file"
  updates :: "(observer \<times> calculation) list"

definition add_observer :: "observer \<Rightarrow> state \<Rightarrow> state" where
  "add_observer ob s = s\<lparr>observers := observers s @ [ob]\<rparr>"

text \<open>
  The loop of \<^verbatim>\<open>notify_observers\<close>: call \<^verbatim>\<open>update\<close>, then format the calculation
  once more for the debug message. An exception leaves the loop.
\<close>

fun notify_loop ::
  "observer list \<Rightarrow> calculation \<Rightarrow> (observer \<times> calculation) list
     \<Rightarrow> (error + unit) \<times> (observer \<times> calculation) list" where
  "notify_loop [] c tr = (Inr (), tr)"
| "notify_loop (ob # obs) c tr =
     (case update ob c of
        Inl e \<Rightarrow> (Inl e, tr @ [(ob, c)])
      | Inr u \<Rightarrow>
          (case str_calculation c of
             Inl e \<Rightarrow> (Inl e, tr @ [(ob, c)])
           | Inr msg \<Rightarrow> notify_loop obs c (tr @ [(ob, c)])))"

definition notify_observers :: "calculation \<Rightarrow> state \<Rightarrow> (error + unit) \<times> state" where
  "notify_observers c s =
     (case notify_loop (observers s) c (updates s) of
        (r, tr) \<Rightarrow> (r, s\<lparr>updates := tr\<rparr>))"

text \<open>
  The list comprehension of \<^verbatim>\<open>save_history\<close>: one row per record, its result
  recomputed; the first record whose result does not compute raises.
\<close>

fun history_data :: "calculation list \<Rightarrow> error + row list" where
  "history_data [] = Inr []"
| "history_data (c # cs) =
     (case call_calculate (operation c) (operand1 c) (operand2 c) of
        Inl e \<Rightarrow> Inl e
      | Inr result \<Rightarrow>
          (case history_data cs of
             Inl e \<Rightarrow> Inl e
           | Inr rows \<Rightarrow>
               Inr (\<lparr>Operation = class_name (operation c), Operand1 = operand1 c,
                     Operand2 = operand2 c, Result = Number result\<rparr> # rows)))"

definition save_history :: "state \<Rightarrow> (error + unit) \<times> state" where
  "save_history s =
     (case history_data (history s) of
        Inl e \<Rightarrow> (Inl e, s)
      | Inr rows \<Rightarrow> (Inr (), s\<lparr>files := (files s)(history_file s \<mapsto> to_csv rows)\<rparr>))"

text \<open>
  \<^verbatim>\<open>load_history\<close>: no file, no records; otherwise one record per row, its operation
  looked up by the lowered content of the \<^verbatim>\<open>Operation\<close> cell.
\<close>

definition load_row :: "row \<Rightarrow> calculation" where
  "load_row r =
     \<lparr>operation = create_operation (lower (Operation r)),
      operand1 = Operand1 r, operand2 = Operand2 r\<rparr>"

definition load_history :: "state \<Rightarrow> (error + calculation list) \<times> state" where
  "load_history s =
     (case files s (history_file s) of
        None \<Rightarrow> (Inr [], s)
      | Some f \<Rightarrow>
          (case read_csv f of
             Inl e \<Rightarrow> (Inl e, s)
           | Inr rows \<Rightarrow> (Inr (map load_row rows), s)))"

definition get_history :: "state \<Rightarrow> calculation list" where
  "get_history s = history s"

definition load_history_manually :: "state \<Rightarrow> (error + calculation list) \<times> state" where
  "load_history_manually s = load_history s"

definition save_history_manually :: "state \<Rightarrow> (error + unit) \<times> state" where
  "save_history_manually s = save_history s"

text \<open>
  The constructor: the history is loaded from the file, there is no observer yet.
\<close>

definition init :: "string \<Rightarrow> (string \<rightharpoonup> csv_file) \<Rightarrow> error + state" where
  "init path fs =
     (let s = \<lparr>history_file = path, history = [], observers = [], files = fs, updates = []\<rparr>
      in case load_history s of
           (Inl e, s') \<Rightarrow> Inl e
         | (Inr h, s') \<Rightarrow> Inr (s'\<lparr>history := h\<rparr>))"

text \<open>
  \<^verbatim>\<open>perform_operation\<close>: append the record, notify the observers, format the record for
  the debug message, save the whole history, then compute the result that is returned.
  An exception leaves the method with the effects made so far.
\<close>

definition perform_operation ::
  "operation \<Rightarrow> pyval \<Rightarrow> pyval \<Rightarrow> state \<Rightarrow> (error + real) \<times> state" where
  "perform_operation opn a b s =
     (let c = \<lparr>operation = Some opn, operand1 = a, operand2 = b\<rparr>;
          s1 = s\<lparr>history := history s @ [c]\<rparr>
      in case notify_observers c s1 of
           (Inl e, s2) \<Rightarrow> (Inl e, s2)
         | (Inr u, s2) \<Rightarrow>
             (case str_calculation c of
                Inl e \<Rightarrow> (Inl e, s2)
              | Inr msg \<Rightarrow>
                  (case save_history s2 of
                     (Inl e, s3) \<Rightarrow> (Inl e, s3)
                   | (Inr u', s3) \<Rightarrow>
                       (case calculate opn a b of
                          Inl e \<Rightarrow> (Inl e, s3)
                        | Inr result \<Rightarrow> (Inr result, s3)))))"

section \<open>The command loop\<close>

text \<open>
  One line of input, as the loop of \<^verbatim>\<open>calculator\<close> tells them apart: the six commands,
  three tokens of which the last two parse as floats, and anything else.
\<close>

datatype command =
  Help | Exit | List | Clear | Save_history | Load_history
  | Calc string real real | Malformed

datatype line =
  HelpText | Exiting | NoCalculations | Item formatted | HistoryCleared
  | ManuallySaved string | ManuallyLoaded string | ResultLine real
  | UnknownOperation string | InvalidInputMessage

text \<open>
  After a line the loop goes on, ends, or the process dies of an exception that nothing
  catches.
\<close>

datatype status = Continue | Break | Uncaught error

fun print_items :: "calculation list \<Rightarrow> line list \<times> status" where
  "print_items [] = ([], Continue)"
| "print_items (c # cs) =
     (case str_calculation c of
        Inl e \<Rightarrow> ([], Uncaught e)
      | Inr msg \<Rightarrow> (case print_items cs of (ls, st) \<Rightarrow> (Item msg # ls, st)))"

fun repl_step :: "command \<Rightarrow> state \<Rightarrow> (line list \<times> status) \<times> state" where
  "repl_step Help s = (([HelpText], Continue), s)"
| "repl_step Exit s = (([Exiting], Break), s)"
| "repl_step List s =
     (if get_history s = [] then (([NoCalculations], Continue), s)
      else (print_items (get_history s), s))"
| "repl_step Clear s =
     (case save_history (s\<lparr>history := []\<rparr>) of
        (Inl e, s') \<Rightarrow> (([], Uncaught e), s')
      | (Inr u, s') \<Rightarrow> (([HistoryCleared], Continue), s'))"
| "repl_step Save_history s =
     (case save_history_manually s of
        (Inl e, s') \<Rightarrow> (([], Uncaught e), s')
      | (Inr u, s') \<Rightarrow> (([ManuallySaved (history_file s')], Continue), s'))"
| "repl_step Load_history s =
     (case load_history_manually s of
        (Inl e, s') \<Rightarrow> (([], Uncaught e), s')
      | (Inr h, s') \<Rightarrow> (([ManuallyLoaded (history_file s')], Continue), s'))"
| "repl_step (Calc operation_str num1 num2) s =
     (case create_operation operation_str of
        None \<Rightarrow> (([UnknownOperation operation_str], Continue), s)
      | Some opn \<Rightarrow>
          (case perform_operation opn (Number num1) (Number num2) s of
             (Inr result, s') \<Rightarrow> (([ResultLine result], Continue), s')
           | (Inl e, s') \<Rightarrow>
               (if is_ValueError e then (([InvalidInputMessage], Continue), s')
                else (([], Uncaught e), s'))))"
| "repl_step Malformed s = (([InvalidInputMessage], Continue), s)"

text \<open>
  The start of \<^verbatim>\<open>calculator\<close>: a calculator on the configured path with one
  \<^verbatim>\<open>HistoryObserver\<close>.
\<close>

definition startup :: "string \<Rightarrow> (string \<rightharpoonup> csv_file) \<Rightarrow> error + state" where
  "startup path fs =
     (case init path fs of
        Inl e \<Rightarrow> Inl e
      | Inr s \<Rightarrow> Inr (add_observer (HistoryObserver 0) s))"

section \<open>Notions used in the statements\<close>

text \<open>The record that \<^verbatim>\<open>perform_operation\<close> builds, and the row that is saved for a record.\<close>

definition new_record :: "operation \<Rightarrow> pyval \<Rightarrow> pyval \<Rightarrow> calculation" where
  "new_record opn a b = \<lparr>operation = Some opn, operand1 = a, operand2 = b\<rparr>"

definition row_of :: "calculation \<Rightarrow> real \<Rightarrow> row" where
  "row_of c r = \<lparr>Operation = class_name (operation c), Operand1 = operand1 c,
                     Operand2 = operand2 c, Result = Number r\<rparr>"

text \<open>
  The file at the calculator's path holds exactly the rows of the history in memory.
\<close>

definition durable_reflects :: "state \<Rightarrow> bool" where
  "durable_reflects s =
     (case history_data (history s) of
        Inl e \<Rightarrow> False
      | Inr rows \<Rightarrow> files s (history_file s) = Some (to_csv rows))"

text \<open>
  The calculator as \<^verbatim>\<open>calculator\<close> starts it on the default path when there is no file
  yet, and the same with a second observer subscribed.
\<close>

definition fresh :: state where
  "fresh = \<lparr>history_file = ''calculator_history.csv'', history = [],
            observers = [HistoryObserver 0], files = Map.empty, updates = []\<rparr>"

definition two_observers :: state where
  "two_observers = add_observer (HistoryObserver 1) fresh"

text \<open>
  An observer whose \<^verbatim>\<open>update\<close> raises whatever it is given, and the fresh calculator
  with that observer subscribed first and a \<^verbatim>\<open>HistoryObserver\<close> second.
\<close>

definition raising_observer :: observer where
  "raising_observer = Observer 7 (\<lambda>c. Inl (Raised ''RuntimeError''))"

definition raising_first :: state where
  "raising_first = fresh\<lparr>observers := [raising_observer, HistoryObserver 1]\<rparr>"

text \<open>
  The fresh calculator after \<^verbatim>\<open>add 2 3\<close>, and that one after \<^verbatim>\<open>divide 1 0\<close>.
\<close>

definition after_add :: state where
  "after_add = snd (perform_operation Addition (Number 2) (Number 3) fresh)"

definition after_add_divide :: state where
  "after_add_divide = snd (perform_operation Division (Number 1) (Number 0) after_add)"

section \<open>Auxiliary facts\<close>

lemma calculate_numbers [simp]:
  "calculate opn (Number a) (Number b) = execute opn a b"
  by (simp add: calculate_def)

lemma calculate_not_numbers [simp]:
  "calculate opn (Str x) b = Inl InvalidInput"
  "calculate opn a (Str y) = Inl InvalidInput"
  by (simp add: calculate_def) (cases a; simp add: calculate_def)

lemma str_calculation_Inl:
  "call_calculate (operation c) (operand1 c) (operand2 c) = Inl e \<Longrightarrow> str_calculation c = Inl e"
  by (simp add: str_calculation_def)

lemma str_calculation_Inr:
  "call_calculate (operation c) (operand1 c) (operand2 c) = Inr r \<Longrightarrow> \<exists>msg. str_calculation c = Inr msg"
  by (simp add: str_calculation_def)

lemma str_new_record:
  "calculate opn a b = Inr r \<Longrightarrow> \<exists>msg. str_calculation (new_record opn a b) = Inr msg"
  by (simp add: str_calculation_def new_record_def)

lemma update_HistoryObserver:
  "update (HistoryObserver n) c =
     (case str_calculation c of Inl e \<Rightarrow> Inl e | Inr msg \<Rightarrow> Inr ())"
  by (simp add: HistoryObserver_def HistoryObserver_update_def)

lemma history_data_snoc:
  "history_data cs = Inr rows \<Longrightarrow>
   call_calculate (operation c) (operand1 c) (operand2 c) = Inr r \<Longrightarrow>
   history_data (cs @ [c]) = Inr (rows @ [row_of c r])"
  by (induction cs arbitrary: rows) (auto simp: row_of_def split: sum.splits)

lemma history_data_snoc_Inl:
  "history_data cs = Inl e \<Longrightarrow> history_data (cs @ [c]) = Inl e"
  by (induction cs) (auto split: sum.splits)

lemma notify_loop_all:
  "str_calculation c = Inr msg \<Longrightarrow> \<forall>ob \<in> set obs. update ob c = Inr () \<Longrightarrow>
   notify_loop obs c tr = (Inr (), tr @ map (\<lambda>ob. (ob, c)) obs)"
  by (induction obs arbitrary: tr) simp_all

lemma notify_loop_stops:
  "str_calculation c = Inr msg \<Longrightarrow> k < length obs \<Longrightarrow>
   \<forall>j < k. update (obs ! j) c = Inr () \<Longrightarrow> update (obs ! k) c = Inl e \<Longrightarrow>
   notify_loop obs c tr = (Inl e, tr @ map (\<lambda>ob. (ob, c)) (take (Suc k) obs))"
proof (induction obs arbitrary: k tr)
  case Nil
  then show ?case by simp
next
  case (Cons ob obs)
  show ?case
  proof (cases k)
    case 0
    with Cons.prems show ?thesis by simp
  next
    case (Suc k')
    have first: "update ob c = Inr ()"
      using Cons.prems(3) Suc by (metis nth_Cons_0 zero_less_Suc)
    have rest: "\<forall>j < k'. update (obs ! j) c = Inr ()"
      using Cons.prems(3) Suc by (metis Suc_less_eq nth_Cons_Suc)
    have "notify_loop obs c (tr @ [(ob, c)])
            = (Inl e, (tr @ [(ob, c)]) @ map (\<lambda>ob. (ob, c)) (take (Suc k') obs))"
      using Cons.IH [OF Cons.prems(1) _ rest] Cons.prems(2,4) Suc by simp
    then show ?thesis
      using first Cons.prems(1) Suc by simp
  qed
qed

lemma notify_observers_frame:
  "notify_observers c s
     = (fst (notify_loop (observers s) c (updates s)),
        s\<lparr>updates := snd (notify_loop (observers s) c (updates s))\<rparr>)"
  by (simp add: notify_observers_def split: prod.splits)

lemma save_history_frame:
  "history (snd (save_history s)) = history s
   \<and> updates (snd (save_history s)) = updates s
   \<and> history_file (snd (save_history s)) = history_file s
   \<and> observers (snd (save_history s)) = observers s"
  by (simp add: save_history_def split: sum.splits)

lemma perform_operation_history:
  "history (snd (perform_operation opn a b s)) = history s @ [new_record opn a b]"
proof -
  let ?s1 = "s\<lparr>history := history s @ [new_record opn a b]\<rparr>"
  let ?s2 = "snd (notify_observers (new_record opn a b) ?s1)"
  have "history (snd (save_history ?s2)) = history s @ [new_record opn a b]"
    by (simp add: save_history_frame notify_observers_frame)
  then show ?thesis
    by (auto simp: perform_operation_def Let_def new_record_def [symmetric]
        notify_observers_frame split: prod.splits sum.splits)
qed

lemma perform_operation_updates:
  "updates (snd (perform_operation opn a b s))
     = snd (notify_loop (observers s) (new_record opn a b) (updates s))"
proof -
  let ?s1 = "s\<lparr>history := history s @ [new_record opn a b]\<rparr>"
  let ?s2 = "snd (notify_observers (new_record opn a b) ?s1)"
  have "updates (snd (save_history ?s2))
          = snd (notify_loop (observers s) (new_record opn a b) (updates s))"
    by (simp add: save_history_frame notify_observers_frame)
  then show ?thesis
    by (auto simp: perform_operation_def Let_def new_record_def [symmetric]
        notify_observers_frame split: prod.splits sum.splits)
qed

lemma perform_operation_notify_raises:
  "fst (notify_loop (observers s) (new_record opn a b) (updates s)) = Inl e \<Longrightarrow>
   fst (perform_operation opn a b s) = Inl e"
  by (simp add: perform_operation_def Let_def new_record_def [symmetric]
      notify_observers_frame)

lemma perform_operation_returned:
  assumes "fst (perform_operation opn a b s) = Inr r"
  shows "\<exists>rows. history_data (history s @ [new_record opn a b]) = Inr rows
     \<and> files (snd (perform_operation opn a b s)) (history_file s) = Some (to_csv rows)
     \<and> history_file (snd (perform_operation opn a b s)) = history_file s"
proof (cases "history_data (history s @ [new_record opn a b])")
  case (Inl e)
  with assms show ?thesis
    by (simp add: perform_operation_def Let_def new_record_def [symmetric]
        notify_observers_frame save_history_def split: sum.splits)
next
  case (Inr rows)
  with assms show ?thesis
    by (simp add: perform_operation_def Let_def new_record_def [symmetric]
        notify_observers_frame save_history_def split: sum.splits)
qed

lemma perform_operation_saves:
  assumes "calculate opn a b = Inr r" and "history_data (history s) = Inr rows"
    and "\<forall>ob \<in> set (observers s). update ob (new_record opn a b) = Inr ()"
  shows "perform_operation opn a b s =
     (Inr r, s\<lparr>history := history s @ [new_record opn a b],
               updates := updates s @ map (\<lambda>ob. (ob, new_record opn a b)) (observers s),
               files := (files s)(history_file s \<mapsto> to_csv (rows @ [row_of (new_record opn a b) r]))\<rparr>)"
proof -
  let ?c = "new_record opn a b"
  have cc: "call_calculate (operation ?c) (operand1 ?c) (operand2 ?c) = Inr r"
    using assms(1) by (simp add: new_record_def)
  obtain msg where str: "str_calculation ?c = Inr msg"
    using str_new_record [OF assms(1)] by blast
  have hd: "history_data (history s @ [?c]) = Inr (rows @ [row_of ?c r])"
    using history_data_snoc [OF assms(2) cc] .
  show ?thesis
    using str hd assms(1)
    by (simp add: perform_operation_def notify_observers_def
        notify_loop_all [OF str assms(3)] save_history_def new_record_def [symmetric] Let_def)
qed

lemma perform_operation_save_raises:
  assumes "calculate opn a b = Inr r" and "history_data (history s) = Inl e"
    and "\<forall>ob \<in> set (observers s). update ob (new_record opn a b) = Inr ()"
  shows "perform_operation opn a b s =
     (Inl e, s\<lparr>history := history s @ [new_record opn a b],
               updates := updates s @ map (\<lambda>ob. (ob, new_record opn a b)) (observers s)\<rparr>)"
proof -
  let ?c = "new_record opn a b"
  obtain msg where str: "str_calculation ?c = Inr msg"
    using str_new_record [OF assms(1)] by blast
  have hd: "history_data (history s @ [?c]) = Inl e"
    using history_data_snoc_Inl [OF assms(2)] .
  show ?thesis
    using str hd
    by (simp add: perform_operation_def notify_observers_def
        notify_loop_all [OF str assms(3)] save_history_def new_record_def [symmetric] Let_def)
qed

lemma perform_add_fresh:
  "perform_operation Addition (Number 2) (Number 3) fresh =
     (Inr 5, fresh\<lparr>history := [new_record Addition (Number 2) (Number 3)],
                   updates := [(HistoryObserver 0, new_record Addition (Number 2) (Number 3))],
                   files := [''calculator_history.csv'' \<mapsto>
                     Table [\<lparr>Operation = ''Addition'', Operand1 = Number 2,
                              Operand2 = Number 3, Result = Number 5\<rparr>]]\<rparr>)"
proof -
  have a: "calculate Addition (Number 2) (Number 3) = Inr 5" by simp
  have h: "history_data (history fresh) = Inr []" by (simp add: fresh_def)
  have o: "\<forall>ob \<in> set (observers fresh).
      update ob (new_record Addition (Number 2) (Number 3)) = Inr ()"
    by (simp add: fresh_def update_HistoryObserver str_calculation_def new_record_def)
  show ?thesis
    unfolding perform_operation_saves [OF a h o]
    by (simp add: fresh_def row_of_def new_record_def to_csv_def)
qed

lemma perform_divide_by_zero:
  assumes "observers s = HistoryObserver n # obs"
  shows "perform_operation Division (Number a) (Number 0) s =
     (Inl DivisionByZero,
      s\<lparr>history := history s @ [new_record Division (Number a) (Number 0)],
        updates := updates s @ [(HistoryObserver n, new_record Division (Number a) (Number 0))]\<rparr>)"
  by (simp add: perform_operation_def notify_observers_def assms update_HistoryObserver
      str_calculation_def new_record_def Let_def)

lemma class_names_unresolved:
  "create_operation (lower ''NoneType'') = None"
  "create_operation (lower ''Addition'') = None"
  "create_operation (lower ''Subtraction'') = None"
  "create_operation (lower ''Multiplication'') = None"
  "create_operation (lower ''Division'') = None"
  by code_simp+

lemma lowered_class_name_unresolved:
  "create_operation (lower (class_name ref)) = None"
proof (cases ref)
  case None
  then show ?thesis by (simp add: class_names_unresolved)
next
  case (Some opn)
  then show ?thesis by (cases opn) (simp_all add: class_names_unresolved)
qed

lemma load_row_of: "load_row (row_of c r) = c\<lparr>operation := None\<rparr>"
  by (simp add: load_row_def row_of_def lowered_class_name_unresolved)

lemma load_saved_rows:
  "history_data cs = Inr rows \<Longrightarrow> map load_row rows = map (\<lambda>c. c\<lparr>operation := None\<rparr>) cs"
proof (induction cs arbitrary: rows)
  case Nil
  then show ?case by simp
next
  case (Cons c cs)
  then show ?case
    using load_row_of by (auto simp: row_of_def split: sum.splits)
qed

lemma startup_fresh: "startup ''calculator_history.csv'' Map.empty = Inr fresh"
  by (simp add: startup_def init_def load_history_def add_observer_def fresh_def)

lemma load_after_save:
  assumes "history_data (history s) = Inr rows"
  shows "fst (load_history (snd (save_history s))) =
     (if history s = [] then Inl EmptyDataError
      else Inr (map (\<lambda>c. c\<lparr>operation := None\<rparr>) (history s)))"
proof (cases "history s")
  case Nil
  with assms show ?thesis
    by (simp add: save_history_def load_history_def to_csv_def)
next
  case (Cons c cs)
  with assms have "rows \<noteq> []"
    by (auto split: sum.splits)
  then show ?thesis
    using assms load_saved_rows [OF assms] Cons
    by (simp add: save_history_def load_history_def to_csv_def)
qed

text \<open>
  What holds of the file after a call of \<^verbatim>\<open>perform_operation\<close> that returns a result, and
  after the \<^verbatim>\<open>clear\<close> command: it holds exactly the rows of the history in memory.
\<close>

lemma write_through_after_return:
  "(fst (perform_operation opn a b s) = Inr r \<longrightarrow>
      durable_reflects (snd (perform_operation opn a b s)))
   \<and> fst (repl_step Clear s) = ([HistoryCleared], Continue)
   \<and> history (snd (repl_step Clear s)) = []
   \<and> durable_reflects (snd (repl_step Clear s))"
proof -
  have "durable_reflects (snd (perform_operation opn a b s))"
    if ok: "fst (perform_operation opn a b s) = Inr r"
    using perform_operation_returned [OF ok]
    by (auto simp: durable_reflects_def perform_operation_history)
  moreover have "fst (repl_step Clear s) = ([HistoryCleared], Continue)"
    by (simp add: save_history_def)
  moreover have "history (snd (repl_step Clear s)) = []"
    by (simp add: save_history_def)
  moreover have "durable_reflects (snd (repl_step Clear s))"
    by (simp add: save_history_def durable_reflects_def)
  ultimately show ?thesis by blast
qed

section \<open>Persistence\<close>

text \<open>
  C1 (round trip of save and load). The claim fails on the code: \<^verbatim>\<open>save_history\<close>
  writes the class name of the operation (\<^verbatim>\<open>Addition\<close>), and \<^verbatim>\<open>load_history\<close> looks the
  lowered class name up among the keys \<^verbatim>\<open>add\<close>, \<^verbatim>\<open>subtract\<close>, \<^verbatim>\<open>multiply\<close>, \<^verbatim>\<open>divide\<close>.
  Saving a history of the single record \<open>2 + 3\<close> and loading it gives a record of the
  same operands whose operation is \<^verbatim>\<open>None\<close>: the identity of the operation is lost.
\<close>

theorem save_then_load_loses_operation:
  "fst (load_history (snd (save_history
      (fresh\<lparr>history := [\<lparr>operation = Some Addition, operand1 = Number 2,
                            operand2 = Number 3\<rparr>]\<rparr>))))
     = Inr [\<lparr>operation = None, operand1 = Number 2, operand2 = Number 3\<rparr>]"
  by (simp add: save_history_def load_history_def fresh_def to_csv_def load_row_def
      class_names_unresolved)

text \<open>
  C7 (saving twice). When a save succeeds, a second save with nothing in between succeeds
  too and leaves the whole state, the files of the host included, as the first save
  left it: the file written is the same both times.
\<close>

theorem save_twice_same_content:
  assumes "fst (save_history s) = Inr ()"
  shows "save_history (snd (save_history s)) = (Inr (), snd (save_history s))
     \<and> files (snd (save_history (snd (save_history s)))) = files (snd (save_history s))"
proof -
  from assms obtain rows where rows: "history_data (history s) = Inr rows"
    by (auto simp: save_history_def split: sum.splits)
  have "save_history (snd (save_history s)) = (Inr (), snd (save_history s))"
    by (simp add: save_history_def rows)
  then show ?thesis by simp
qed

text \<open>
  The same after \<open>2 + 3\<close> on the fresh calculator: the second save succeeds, and the file
  holds the one row.
\<close>

theorem save_twice_same_content_witness:
  "fst (save_history (snd (perform_operation Addition (Number 2) (Number 3) fresh))) = Inr ()
   \<and> files (snd (save_history (snd (save_history
        (snd (perform_operation Addition (Number 2) (Number 3) fresh)))))) ''calculator_history.csv''
      = Some (Table [\<lparr>Operation = ''Addition'', Operand1 = Number 2, Operand2 = Number 3,
                       Result = Number 5\<rparr>])"
proof -
  have f: "fst (save_history (snd (perform_operation Addition (Number 2) (Number 3) fresh))) = Inr ()"
    unfolding perform_add_fresh
    by (simp add: save_history_def new_record_def fresh_def)
  show ?thesis
    using f save_twice_same_content [OF f]
    unfolding perform_add_fresh
    by (simp add: save_history_def new_record_def row_of_def to_csv_def fresh_def)
qed

text \<open>
  C8 (first run). When there is no file at the calculator's path, \<^verbatim>\<open>load_history\<close>
  returns the empty list and raises nothing, and the constructor builds a calculator
  with an empty history.
\<close>

theorem load_without_file:
  "files s (history_file s) = None \<Longrightarrow>
   load_history s = (Inr [], s)
   \<and> init (history_file s) (files s)
       = Inr \<lparr>history_file = history_file s, history = [], observers = [],
              files = files s, updates = []\<rparr>"
  by (simp add: load_history_def init_def)

text \<open>The fresh calculator has no file, and loads the empty list.\<close>

theorem load_without_file_witness:
  "files fresh (history_file fresh) = None \<and> load_history fresh = (Inr [], fresh)"
proof -
  have h: "files fresh (history_file fresh) = None" by (simp add: fresh_def)
  show ?thesis using h load_without_file [OF h] by simp
qed

text \<open>
  C9 (write-through). The claim fails on the code: \<^verbatim>\<open>perform_operation\<close> appends the
  record first and saves last, and the save is skipped when anything in between raises.
  On the fresh calculator, \<^verbatim>\<open>add 2 3\<close> returns \<open>5\<close> and writes one row; \<^verbatim>\<open>divide 1 0\<close>
  then raises after its record has been appended. The history in memory holds two
  records, the file still holds the one row: the file does not reflect the memory.
\<close>

theorem failed_perform_leaves_file_behind:
  "fst (perform_operation Addition (Number 2) (Number 3) fresh) = Inr 5
   \<and> fst (perform_operation Division (Number 1) (Number 0) after_add) = Inl DivisionByZero
   \<and> history after_add_divide
       = [\<lparr>operation = Some Addition, operand1 = Number 2, operand2 = Number 3\<rparr>,
          \<lparr>operation = Some Division, operand1 = Number 1, operand2 = Number 0\<rparr>]
   \<and> history_file after_add_divide = ''calculator_history.csv''
   \<and> files after_add_divide ''calculator_history.csv''
       = Some (Table [\<lparr>Operation = ''Addition'', Operand1 = Number 2, Operand2 = Number 3,
                        Result = Number 5\<rparr>])
   \<and> \<not> durable_reflects after_add_divide"
proof -
  have o: "observers (snd (perform_operation Addition (Number 2) (Number 3) fresh))
             = HistoryObserver 0 # []"
    unfolding perform_add_fresh by (simp add: fresh_def)
  have d: "perform_operation Division (Number 1) (Number 0) after_add =
     (Inl DivisionByZero,
      after_add\<lparr>history := history after_add @ [new_record Division (Number 1) (Number 0)],
        updates := updates after_add @ [(HistoryObserver 0, new_record Division (Number 1) (Number 0))]\<rparr>)"
    using perform_divide_by_zero [OF o, of 1] by (simp add: after_add_def)
  have a: "after_add = fresh\<lparr>history := [new_record Addition (Number 2) (Number 3)],
                   updates := [(HistoryObserver 0, new_record Addition (Number 2) (Number 3))],
                   files := [''calculator_history.csv'' \<mapsto>
                     Table [\<lparr>Operation = ''Addition'', Operand1 = Number 2,
                              Operand2 = Number 3, Result = Number 5\<rparr>]]\<rparr>"
    by (simp add: after_add_def perform_add_fresh)
  have f: "fst (perform_operation Addition (Number 2) (Number 3) fresh) = Inr 5"
    by (simp add: perform_add_fresh)
  have g: "fst (perform_operation Division (Number 1) (Number 0) after_add) = Inl DivisionByZero"
    by (simp add: d)
  have rest: "history after_add_divide
       = [\<lparr>operation = Some Addition, operand1 = Number 2, operand2 = Number 3\<rparr>,
          \<lparr>operation = Some Division, operand1 = Number 1, operand2 = Number 0\<rparr>]
   \<and> history_file after_add_divide = ''calculator_history.csv''
   \<and> files after_add_divide ''calculator_history.csv''
       = Some (Table [\<lparr>Operation = ''Addition'', Operand1 = Number 2, Operand2 = Number 3,
                        Result = Number 5\<rparr>])
   \<and> \<not> durable_reflects after_add_divide"
    unfolding after_add_divide_def d
    by (simp add: a fresh_def new_record_def durable_reflects_def)
  show ?thesis
    using f g rest by blast
qed

text \<open>
  C10 (manual load). \<^verbatim>\<open>load_history_manually\<close> returns what \<^verbatim>\<open>load_history\<close> reads and
  leaves every field of the state as it was, the history in memory included; so does the
  \<^verbatim>\<open>load_history\<close> command of the loop.
\<close>

theorem load_history_manually_frame:
  "snd (load_history_manually s) = s
   \<and> fst (load_history_manually s) = fst (load_history s)
   \<and> snd (repl_step Load_history s) = s"
  by (simp add: load_history_manually_def load_history_def split: option.splits sum.splits)

section \<open>Errors\<close>

text \<open>
  C2 (division by zero). The claim fails on the code: \<^verbatim>\<open>perform_operation\<close> appends the
  record before anything is computed. Dividing \<open>1\<close> by \<open>0\<close> on the fresh calculator
  raises the division-by-zero error, which the loop reports as invalid input, and
  leaves the record in the history, whose length goes from 0 to 1; the \<^verbatim>\<open>list\<close> command
  then dies of the same error.
\<close>

theorem divide_by_zero_appends_record:
  "fst (perform_operation Division (Number 1) (Number 0) fresh) = Inl DivisionByZero
   \<and> history (snd (perform_operation Division (Number 1) (Number 0) fresh))
       = [\<lparr>operation = Some Division, operand1 = Number 1, operand2 = Number 0\<rparr>]
   \<and> history fresh = []
   \<and> fst (repl_step (Calc ''divide'' 1 0) fresh) = ([InvalidInputMessage], Continue)
   \<and> length (history (snd (repl_step (Calc ''divide'' 1 0) fresh))) = 1
   \<and> fst (repl_step List (snd (repl_step (Calc ''divide'' 1 0) fresh)))
       = ([], Uncaught DivisionByZero)"
proof -
  have o: "observers fresh = HistoryObserver 0 # []" by (simp add: fresh_def)
  have d: "create_operation ''divide'' = Some Division" by code_simp
  show ?thesis
    by (simp add: perform_divide_by_zero [OF o] d new_record_def)
       (simp add: fresh_def get_history_def str_calculation_def)
qed

text \<open>
  C3 (unknown operation). For a name that the factory does not resolve, the loop prints
  the unknown-operation message and leaves the state, the history included, as it was.
\<close>

theorem unknown_operation_no_record:
  "create_operation name = None \<Longrightarrow>
   repl_step (Calc name a b) s = (([UnknownOperation name], Continue), s)"
  by simp

text \<open>The name \<^verbatim>\<open>bogus\<close> does not resolve, and the fresh calculator is left as it was.\<close>

theorem unknown_operation_no_record_witness:
  "create_operation ''bogus'' = None
   \<and> repl_step (Calc ''bogus'' 1 2) fresh = (([UnknownOperation ''bogus''], Continue), fresh)"
proof -
  have h: "create_operation ''bogus'' = None" by code_simp
  show ?thesis using h unknown_operation_no_record [OF h, of 1 2 fresh] by simp
qed

text \<open>
  C4 (rows whose name does not resolve). Loading a file with the row
  \<^verbatim>\<open>bogus,1,2,3\<close> gives a record whose operation is \<^verbatim>\<open>None\<close>. Recomputing its result, for
  display or for saving, raises the attribute error of a method call on \<^verbatim>\<open>None\<close>, a
  null-reference fault, where the claim asks for an unknown-operation error.
\<close>

theorem unresolved_row_null_reference:
  "fst (load_history (fresh\<lparr>files := [''calculator_history.csv'' \<mapsto>
        Table [\<lparr>Operation = ''bogus'', Operand1 = Number 1, Operand2 = Number 2,
                 Result = Number 3\<rparr>]]\<rparr>))
     = Inr [\<lparr>operation = None, operand1 = Number 1, operand2 = Number 2\<rparr>]
   \<and> str_calculation \<lparr>operation = None, operand1 = Number 1, operand2 = Number 2\<rparr>
       = Inl NoneTypeAttributeError
   \<and> history_data [\<lparr>operation = None, operand1 = Number 1, operand2 = Number 2\<rparr>]
       = Inl NoneTypeAttributeError"
proof -
  have h: "create_operation (lower ''bogus'') = None" by code_simp
  show ?thesis
    by (simp add: load_history_def fresh_def load_row_def h str_calculation_def)
qed

section \<open>Observers\<close>

text \<open>
  C5 (two observers), as stated, fails: \<^verbatim>\<open>notify_observers\<close> is a plain loop, without
  any handler. With an observer whose \<^verbatim>\<open>update\<close> raises subscribed first and a
  \<^verbatim>\<open>HistoryObserver\<close> second, \<^verbatim>\<open>add 2 3\<close> calls the first observer only; the second is
  never called, and the error leaves \<^verbatim>\<open>perform_operation\<close> and ends the loop of the
  calculator.
\<close>

theorem raising_observer_skips_second_counterexample:
  "observers raising_first = [raising_observer, HistoryObserver 1]
   \<and> update raising_observer
        \<lparr>operation = Some Addition, operand1 = Number 2, operand2 = Number 3\<rparr>
       = Inl (Raised ''RuntimeError'')
   \<and> updates (snd (perform_operation Addition (Number 2) (Number 3) raising_first))
       = [(raising_observer,
           \<lparr>operation = Some Addition, operand1 = Number 2, operand2 = Number 3\<rparr>)]
   \<and> map (\<lambda>u. obs_id (fst u))
        (updates (snd (perform_operation Addition (Number 2) (Number 3) raising_first)))
       = [7]
   \<and> fst (perform_operation Addition (Number 2) (Number 3) raising_first)
       = Inl (Raised ''RuntimeError'')
   \<and> fst (repl_step (Calc ''add'' 2 3) raising_first) = ([], Uncaught (Raised ''RuntimeError''))"
proof -
  have ad: "create_operation ''add'' = Some Addition" by code_simp
  have p: "perform_operation Addition (Number 2) (Number 3) raising_first =
    (Inl (Raised ''RuntimeError''),
     raising_first\<lparr>history := [new_record Addition (Number 2) (Number 3)],
       updates := [(raising_observer, new_record Addition (Number 2) (Number 3))]\<rparr>)"
    by (simp add: perform_operation_def notify_observers_def raising_first_def fresh_def
        raising_observer_def new_record_def Let_def)
  have q: "fst (repl_step (Calc ''add'' 2 3) raising_first)
      = ([], Uncaught (Raised ''RuntimeError''))"
    by (simp add: ad p)
  have o: "observers raising_first = [raising_observer, HistoryObserver 1]"
    by (simp add: raising_first_def)
  have u: "update raising_observer
        \<lparr>operation = Some Addition, operand1 = Number 2, operand2 = Number 3\<rparr>
       = Inl (Raised ''RuntimeError'')"
    by (simp add: raising_observer_def)
  show ?thesis
    using q o u by (simp add: p new_record_def raising_observer_def)
qed

text \<open>
  C5, amended. For an operation whose result computes, the observers are called in the
  order of their subscription, without isolation: when no observer raises, every
  subscribed observer is called exactly once, in that order; when an observer raises,
  the observers up to and including it have been called once each, in that order, no
  observer after it is called, and its error leaves \<^verbatim>\<open>perform_operation\<close>.
\<close>

theorem observers_notified_until_first_raise:
  assumes "calculate opn a b = Inr r"
  shows "((\<forall>ob \<in> set (observers s).
             update ob \<lparr>operation = Some opn, operand1 = a, operand2 = b\<rparr> = Inr ()) \<longrightarrow>
          updates (snd (perform_operation opn a b s))
            = updates s @ map (\<lambda>ob. (ob, \<lparr>operation = Some opn, operand1 = a, operand2 = b\<rparr>))
                (observers s))
     \<and> (\<forall>k e. k < length (observers s)
            \<and> (\<forall>j < k. update (observers s ! j)
                   \<lparr>operation = Some opn, operand1 = a, operand2 = b\<rparr> = Inr ())
            \<and> update (observers s ! k)
                   \<lparr>operation = Some opn, operand1 = a, operand2 = b\<rparr> = Inl e \<longrightarrow>
          updates (snd (perform_operation opn a b s))
            = updates s @ map (\<lambda>ob. (ob, \<lparr>operation = Some opn, operand1 = a, operand2 = b\<rparr>))
                (take (Suc k) (observers s))
          \<and> fst (perform_operation opn a b s) = Inl e)"
proof -
  let ?c = "new_record opn a b"
  have c: "\<lparr>operation = Some opn, operand1 = a, operand2 = b\<rparr> = ?c"
    by (simp add: new_record_def)
  obtain msg where str: "str_calculation ?c = Inr msg"
    using str_new_record [OF assms] by blast
  have all: "updates (snd (perform_operation opn a b s))
      = updates s @ map (\<lambda>ob. (ob, ?c)) (observers s)"
    if "\<forall>ob \<in> set (observers s). update ob ?c = Inr ()"
    by (simp add: perform_operation_updates notify_loop_all [OF str that])
  have stop: "updates (snd (perform_operation opn a b s))
        = updates s @ map (\<lambda>ob. (ob, ?c)) (take (Suc k) (observers s))
      \<and> fst (perform_operation opn a b s) = Inl e"
    if "k < length (observers s)" "\<forall>j < k. update (observers s ! j) ?c = Inr ()"
      "update (observers s ! k) ?c = Inl e" for k e
  proof -
    have nl: "notify_loop (observers s) ?c (updates s)
        = (Inl e, updates s @ map (\<lambda>ob. (ob, ?c)) (take (Suc k) (observers s)))"
      using notify_loop_stops [OF str that] .
    show ?thesis
      using perform_operation_notify_raises [of s opn a b e]
      by (simp add: perform_operation_updates nl)
  qed
  show ?thesis
    unfolding c using all stop by blast
qed

text \<open>
  \<^verbatim>\<open>add 2 3\<close> with two observers that do not raise calls both, in order; with the raising
  observer first it calls that one only, and raises.
\<close>

theorem observers_notified_until_first_raise_witness:
  "calculate Addition (Number 2) (Number 3) = Inr 5
   \<and> observers two_observers = [HistoryObserver 0, HistoryObserver 1]
   \<and> update (HistoryObserver 0)
        \<lparr>operation = Some Addition, operand1 = Number 2, operand2 = Number 3\<rparr> = Inr ()
   \<and> update (HistoryObserver 1)
        \<lparr>operation = Some Addition, operand1 = Number 2, operand2 = Number 3\<rparr> = Inr ()
   \<and> updates (snd (perform_operation Addition (Number 2) (Number 3) two_observers))
     = [(HistoryObserver 0, \<lparr>operation = Some Addition, operand1 = Number 2, operand2 = Number 3\<rparr>),
        (HistoryObserver 1, \<lparr>operation = Some Addition, operand1 = Number 2, operand2 = Number 3\<rparr>)]
   \<and> (0::nat) < length (observers raising_first)
   \<and> update (observers raising_first ! 0)
        \<lparr>operation = Some Addition, operand1 = Number 2, operand2 = Number 3\<rparr>
       = Inl (Raised ''RuntimeError'')
   \<and> updates (snd (perform_operation Addition (Number 2) (Number 3) raising_first))
     = [(raising_observer, \<lparr>operation = Some Addition, operand1 = Number 2, operand2 = Number 3\<rparr>)]
   \<and> fst (perform_operation Addition (Number 2) (Number 3) raising_first)
       = Inl (Raised ''RuntimeError'')"
proof -
  have a: "calculate Addition (Number 2) (Number 3) = Inr 5" by simp
  have acc: "\<forall>ob \<in> set (observers two_observers).
        update ob \<lparr>operation = Some Addition, operand1 = Number 2, operand2 = Number 3\<rparr> = Inr ()"
    by (simp add: two_observers_def fresh_def add_observer_def update_HistoryObserver
        str_calculation_def)
  have len: "(0::nat) < length (observers raising_first)"
    by (simp add: raising_first_def)
  have rs: "update (observers raising_first ! 0)
        \<lparr>operation = Some Addition, operand1 = Number 2, operand2 = Number 3\<rparr>
       = Inl (Raised ''RuntimeError'')"
    by (simp add: raising_first_def raising_observer_def)
  note t1 = observers_notified_until_first_raise [OF a, of two_observers, THEN conjunct1, THEN mp, OF acc]
  note t2 = observers_notified_until_first_raise [OF a, of raising_first, THEN conjunct2, rule_format,
      of 0 "Raised ''RuntimeError''"]
  have t2': "updates (snd (perform_operation Addition (Number 2) (Number 3) raising_first))
      = updates raising_first @ map (\<lambda>ob. (ob, \<lparr>operation = Some Addition, operand1 = Number 2, operand2 = Number 3\<rparr>))
                (take (Suc 0) (observers raising_first))
     \<and> fst (perform_operation Addition (Number 2) (Number 3) raising_first) = Inl (Raised ''RuntimeError'')"
    using t2 len rs by simp
  have obs: "observers two_observers = [HistoryObserver 0, HistoryObserver 1]"
    by (simp add: two_observers_def fresh_def add_observer_def)
  have u0: "update (HistoryObserver 0)
        \<lparr>operation = Some Addition, operand1 = Number 2, operand2 = Number 3\<rparr> = Inr ()"
    and u1: "update (HistoryObserver 1)
        \<lparr>operation = Some Addition, operand1 = Number 2, operand2 = Number 3\<rparr> = Inr ()"
    using acc by (simp_all add: obs)
  have both: "updates (snd (perform_operation Addition (Number 2) (Number 3) two_observers))
     = [(HistoryObserver 0, \<lparr>operation = Some Addition, operand1 = Number 2, operand2 = Number 3\<rparr>),
        (HistoryObserver 1, \<lparr>operation = Some Addition, operand1 = Number 2, operand2 = Number 3\<rparr>)]"
    using t1 by (simp add: obs) (simp add: two_observers_def fresh_def add_observer_def)
  have first: "updates (snd (perform_operation Addition (Number 2) (Number 3) raising_first))
     = [(raising_observer, \<lparr>operation = Some Addition, operand1 = Number 2, operand2 = Number 3\<rparr>)]"
    using t2' by (simp add: raising_first_def fresh_def)
  show ?thesis
    using a obs u0 u1 both len rs first t2' by blast
qed

section \<open>Results\<close>

text \<open>
  C6 (add, subtract, multiply). The claim fails on the code: \<^verbatim>\<open>perform_operation\<close> saves
  the whole history before it returns, which recomputes every record in it. On the
  fresh calculator \<^verbatim>\<open>add 2 3\<close> returns \<open>5\<close>; after \<^verbatim>\<open>divide 1 0\<close> has left its record in
  the history, the same \<^verbatim>\<open>add 2 3\<close> raises the division-by-zero error and the loop
  reports invalid input, where the claim says that \<open>5\<close> is returned. (All the numbers of
  this run are computed exactly by the host's floats as well.)
\<close>

theorem add_after_divide_by_zero_raises:
  "fst (perform_operation Addition (Number 2) (Number 3) fresh) = Inr 5
   \<and> fst (perform_operation Addition (Number 2) (Number 3)
         (snd (perform_operation Division (Number 1) (Number 0) fresh)))
       = Inl DivisionByZero
   \<and> fst (repl_step (Calc ''add'' 2 3) (snd (repl_step (Calc ''divide'' 1 0) fresh)))
       = ([InvalidInputMessage], Continue)"
proof -
  let ?s = "fresh\<lparr>history := history fresh @ [new_record Division (Number 1) (Number 0)],
        updates := updates fresh @ [(HistoryObserver 0, new_record Division (Number 1) (Number 0))]\<rparr>"
  have o: "observers fresh = HistoryObserver 0 # []" by (simp add: fresh_def)
  have dv: "create_operation ''divide'' = Some Division" by code_simp
  have ad: "create_operation ''add'' = Some Addition" by code_simp
  have a: "calculate Addition (Number 2) (Number 3) = Inr 5" by simp
  have h: "history_data (history ?s) = Inl DivisionByZero"
    by (simp add: fresh_def new_record_def)
  have ob: "\<forall>ob \<in> set (observers ?s).
      update ob (new_record Addition (Number 2) (Number 3)) = Inr ()"
    by (simp add: fresh_def update_HistoryObserver str_calculation_def new_record_def)
  note p = perform_operation_save_raises [OF a h ob]
  show ?thesis
    by (simp add: perform_add_fresh perform_divide_by_zero [OF o] dv ad p)
qed

end
